theory Spec2Isabelle
  imports Main
begin

section \<open>JavaScript values as the three scripts use them\<close>

text \<open>
  The repository holds three variants of one Deno script: \<^verbatim>\<open>src/main.ts\<close> (chat and
  image models, authentication in the router), \<^verbatim>\<open>src/unnamed/part_000\<close> (one chat
  model, CORS headers on every answer, emulated streaming) and \<^verbatim>\<open>src/unnamed/part_001\<close>
  (one chat model, the first version). Definitions taken from them carry the suffixes
  \<open>_main\<close>, \<open>_p0\<close> and \<open>_p1\<close>.

  A parsed JSON document, a property read from it and a value of the model table are
  all JavaScript values. Strings are lists of 8-bit characters standing for code units
  below 256; numbers are the integral ones (no path of the scripts computes with a
  number of a request or of an upstream reply). An object lists its own members, each key
  once, in the order of insertion. \<open>Fn n\<close> is the built-in function that
  \<^verbatim>\<open>Object.prototype\<close> holds under the name \<open>n\<close>.
\<close>

datatype jsval =
    Undefined
  | Null
  | Bool bool
  | Num int
  | Str string
  | Arr "jsval list"
  | Obj "(string \<times> jsval) list"
  | Fn string

text \<open>A thrown value; the string is its \<^verbatim>\<open>message\<close>.\<close>

datatype js_error = JsError string

fun message :: "js_error \<Rightarrow> string" where
  "message (JsError m) = m"

text \<open>\<^verbatim>\<open>!v\<close> is true exactly when \<open>v\<close> is not truthy.\<close>

fun truthy :: "jsval \<Rightarrow> bool" where
  "truthy Undefined = False"
| "truthy Null = False"
| "truthy (Bool b) = b"
| "truthy (Num n) = (n \<noteq> 0)"
| "truthy (Str s) = (s \<noteq> [])"
| "truthy (Arr xs) = True"
| "truthy (Obj ps) = True"
| "truthy (Fn n) = True"

fun nullish :: "jsval \<Rightarrow> bool" where
  "nullish Undefined = True"
| "nullish Null = True"
| "nullish v = False"

text \<open>
  The names every object literal inherits from \<^verbatim>\<open>Object.prototype\<close>. The accessor
  \<^verbatim>\<open>__proto__\<close> is left out: Deno removes it from the prototype at start-up, and nothing
  below depends on it.
\<close>

definition object_prototype_keys :: "string list" where
  "object_prototype_keys =
     [''constructor'', ''hasOwnProperty'', ''isPrototypeOf'', ''propertyIsEnumerable'',
      ''toLocaleString'', ''toString'', ''valueOf'', ''__defineGetter__'',
      ''__defineSetter__'', ''__lookupGetter__'', ''__lookupSetter__'']"

text \<open>
  \<^verbatim>\<open>v[k]\<close> for a value that is neither \<^verbatim>\<open>undefined\<close> nor \<^verbatim>\<open>null\<close>: an own property of an
  object first, then the prototype chain. On the other kinds of value the scripts read
  only the names \<^verbatim>\<open>model\<close>, \<^verbatim>\<open>messages\<close>, \<^verbatim>\<open>stream\<close>, \<^verbatim>\<open>size\<close>, \<^verbatim>\<open>prompt\<close>, \<^verbatim>\<open>type\<close>,
  \<^verbatim>\<open>projectId\<close>, \<^verbatim>\<open>apiUrl\<close>, \<^verbatim>\<open>content\<close> and \<^verbatim>\<open>url\<close>, which no built-in prototype defines.
\<close>

fun get_prop :: "jsval \<Rightarrow> string \<Rightarrow> jsval" where
  "get_prop (Obj ps) k =
     (case map_of ps k of
        Some v \<Rightarrow> v
      | None \<Rightarrow> if k \<in> set object_prototype_keys then Fn k else Undefined)"
| "get_prop v k = Undefined"

text \<open>\<^verbatim>\<open>v.k\<close> in general: reading a property of \<^verbatim>\<open>undefined\<close> or \<^verbatim>\<open>null\<close> throws a TypeError.\<close>

definition js_get :: "jsval \<Rightarrow> string \<Rightarrow> js_error + jsval" where
  "js_get v k =
     (if nullish v
      then Inl (JsError (''Cannot read properties of '' @ (if v = Null then ''null'' else ''undefined'')
                         @ '' (reading '' @ [CHR 0x27] @ k @ [CHR 0x27] @ '')''))
      else Inr (get_prop v k))"

subsection \<open>Conversion to a string\<close>

fun show_nat :: "nat \<Rightarrow> string" where
  "show_nat n =
     (if n < 10 then [char_of (48 + n)]
      else show_nat (n div 10) @ [char_of (48 + n mod 10)])"

declare show_nat.simps [simp del]

definition show_int :: "int \<Rightarrow> string" where
  "show_int i = (if i < 0 then CHR ''-'' # show_nat (nat (- i)) else show_nat (nat i))"

fun join :: "string \<Rightarrow> string list \<Rightarrow> string" where
  "join sep [] = []"
| "join sep [x] = x"
| "join sep (x # y # ys) = x @ sep @ join sep (y # ys)"

text \<open>
  \<^verbatim>\<open>String(v)\<close>, which a template literal and a computed property key both apply.
  An array is its elements joined by commas, with \<^verbatim>\<open>undefined\<close> and \<^verbatim>\<open>null\<close> elements empty.
  Two cases of JavaScript are not covered: a number is written in plain decimal, as
  JavaScript does for the integers it represents exactly below \<open>10^21\<close> (larger ones get an
  exponent); and an object is taken to have no own member \<^verbatim>\<open>toString\<close> (with one, which
  in a parsed document is never a function, the conversion throws a TypeError).
\<close>

fun js_toString :: "jsval \<Rightarrow> string" where
  "js_toString Undefined = ''undefined''"
| "js_toString Null = ''null''"
| "js_toString (Bool b) = (if b then ''true'' else ''false'')"
| "js_toString (Num n) = show_int n"
| "js_toString (Str s) = s"
| "js_toString (Arr xs) =
     join '','' (map (\<lambda>x. if nullish x then [] else js_toString x) xs)"
| "js_toString (Obj ps) = ''[object Object]''"
| "js_toString (Fn n) = ''function '' @ n @ ''() { [native code] }''"

text \<open>
  \<^verbatim>\<open>String.prototype.trim\<close>: the white space and line terminators of ECMAScript among the
  code units below 256 are 9 to 13, 32 and 160.
\<close>

definition is_space :: "char \<Rightarrow> bool" where
  "is_space c = ((of_char c :: nat) \<in> {9, 10, 11, 12, 13, 32, 160})"

definition trim :: "string \<Rightarrow> string" where
  "trim s = rev (dropWhile is_space (rev (dropWhile is_space s)))"


section \<open>Requests, responses and the world outside the handler\<close>

text \<open>
  What a handler reads of a \<^verbatim>\<open>Request\<close>: the method, \<^verbatim>\<open>new URL(req.url).pathname\<close>,
  \<^verbatim>\<open>req.headers.get("Authorization")\<close> (\<open>None\<close> for \<^verbatim>\<open>null\<close>) and what \<^verbatim>\<open>await req.json()\<close>
  gives: the parsed document, or the error it rejects with when the body is not JSON.
\<close>

record request =
  http_method :: string
  pathname :: string
  authorization :: "string option"
  json_result :: "js_error + jsval"

text \<open>
  A \<^verbatim>\<open>ReadableStream\<close> whose \<^verbatim>\<open>start\<close> callback fills it at once: the chunks enqueued, in
  order, and whether \<^verbatim>\<open>controller.close()\<close> was called. The callback gets an open controller.
  The chunks are the JavaScript strings the script hands to \<^verbatim>\<open>enqueue\<close>, as it builds them;
  it does not encode them to bytes, and what the HTTP server makes of the stream when it
  sends the response is outside this model.
\<close>

record controller =
  queue :: "string list"
  closed :: bool

definition new_controller :: controller where
  "new_controller = \<lparr>queue = [], closed = False\<rparr>"

definition enqueue :: "controller \<Rightarrow> string \<Rightarrow> controller" where
  "enqueue c s = c\<lparr>queue := queue c @ [s]\<rparr>"

definition close :: "controller \<Rightarrow> controller" where
  "close c = c\<lparr>closed := True\<rparr>"

datatype body = NoBody | Text string | Stream controller

text \<open>
  A \<^verbatim>\<open>Response\<close>: \<open>headers\<close> are the ones the script passes in \<^verbatim>\<open>init.headers\<close>, in the
  order written.
\<close>

record response =
  status :: nat
  headers :: "(string \<times> string) list"
  body :: body

definition null_body_status :: "nat \<Rightarrow> bool" where
  "null_body_status s = (s \<in> {101, 103, 204, 205, 304})"

text \<open>
  \<^verbatim>\<open>new Response(body, {status, headers})\<close>. The constructor throws a RangeError for a
  status outside 200..599 and a TypeError for a body together with a null-body status.
\<close>

definition new_Response :: "body \<Rightarrow> nat \<Rightarrow> (string \<times> string) list \<Rightarrow> js_error + response" where
  "new_Response b s hs =
     (if s < 200 \<or> 599 < s then Inl (JsError ''The status provided is outside the range [200, 599]'')
      else if b \<noteq> NoBody \<and> null_body_status s
        then Inl (JsError ''Response with null body status cannot have body'')
      else Inr \<lparr>status = s, headers = hs, body = b\<rparr>)"

text \<open>
  The \<^verbatim>\<open>Response\<close> that \<^verbatim>\<open>fetch\<close> resolves to: \<^verbatim>\<open>ok\<close> is true for a status in 200..299;
  \<^verbatim>\<open>text()\<close> and \<^verbatim>\<open>json()\<close> give a value or reject.
\<close>

record upstream_reply =
  reply_status :: nat
  reply_statusText :: string
  reply_text :: "js_error + string"
  reply_json :: "js_error + jsval"

definition ok :: "upstream_reply \<Rightarrow> bool" where
  "ok r = (200 \<le> reply_status r \<and> reply_status r \<le> 299)"

text \<open>
  Everything a handler asks of its surroundings: \<^verbatim>\<open>Deno.env.get\<close>, \<^verbatim>\<open>fetch\<close> (always called
  with method POST, a JSON content type and a string body; the result for a URL and a
  body, or the rejection), the successive readings of \<^verbatim>\<open>Date.now()\<close> during one request
  (\<open>Date_now w k\<close> is the reading of call number \<open>k\<close>, from 0, in milliseconds),
  \<^verbatim>\<open>crypto.randomUUID()\<close> and \<^verbatim>\<open>JSON.stringify\<close>. The scripts' \<^verbatim>\<open>console\<close> output is left out.
\<close>

record world =
  env_get :: "string \<Rightarrow> string option"
  fetch :: "string \<Rightarrow> string \<Rightarrow> js_error + upstream_reply"
  Date_now :: "nat \<Rightarrow> nat"
  randomUUID :: string
  JSON_stringify :: "jsval \<Rightarrow> string"

text \<open>
  The effects of a handler that the claims speak of, in the order they happen:
  the request body is read and parsed, the upstream is called with a URL and a body.
\<close>

datatype event = ReadBody | Fetch string string

fun is_Fetch :: "event \<Rightarrow> bool" where
  "is_Fetch (Fetch u b) = True"
| "is_Fetch ReadBody = False"

text \<open>
  A run of a handler: the \<^verbatim>\<open>Response\<close> it returns (\<open>Inr\<close>) or the error that leaves it
  uncaught (\<open>Inl\<close>), and its effects.
\<close>

type_synonym outcome = "(js_error + response) \<times> event list"

text \<open>\<^verbatim>\<open>Deno.env.get(k) || d\<close>: an unset or empty variable gives the default.\<close>

definition or_default :: "string option \<Rightarrow> string \<Rightarrow> string" where
  "or_default v d = (case v of None \<Rightarrow> d | Some s \<Rightarrow> if s = [] then d else s)"

definition AUTHORIZATION_KEY :: "world \<Rightarrow> string option" where
  "AUTHORIZATION_KEY w = env_get w ''API_KEY''"

text \<open>
  The check all three scripts make:
  \<^verbatim>\<open>if (AUTHORIZATION_KEY) { if (!authHeader || authHeader !== `Bearer ${AUTHORIZATION_KEY}`) ... }\<close>.
  An unset or empty key switches it off.
\<close>

definition unauthorized :: "world \<Rightarrow> request \<Rightarrow> bool" where
  "unauthorized w req =
     (case AUTHORIZATION_KEY w of
        None \<Rightarrow> False
      | Some k \<Rightarrow>
          k \<noteq> [] \<and>
          (case authorization req of
             None \<Rightarrow> True
           | Some authHeader \<Rightarrow> authHeader = [] \<or> authHeader \<noteq> ''Bearer '' @ k))"

definition preflight :: outcome where
  "preflight =
     (new_Response NoBody 204
        [(''Access-Control-Allow-Origin'', ''*''),
         (''Access-Control-Allow-Methods'', ''GET, POST, OPTIONS''),
         (''Access-Control-Allow-Headers'', ''Content-Type, Authorization'')], [])"

text \<open>\<^verbatim>\<open>Object.keys\<close> of an object literal: its own keys in the order written.\<close>

fun object_keys :: "jsval \<Rightarrow> string list" where
  "object_keys (Obj ps) = map fst ps"
| "object_keys v = []"

text \<open>\<^verbatim>\<open>Math.floor(Date.now() / 1000)\<close> for reading number \<open>k\<close>.\<close>

definition now_seconds :: "world \<Rightarrow> nat \<Rightarrow> jsval" where
  "now_seconds w k = Num (int (Date_now w k div 1000))"

text \<open>
  The body of \<^verbatim>\<open>handleModels\<close>, the same in the three scripts but for the table and the
  headers: one entry per key, each with its own reading of the clock.
\<close>

definition models_list :: "world \<Rightarrow> jsval \<Rightarrow> jsval" where
  "models_list w mapping =
     Obj [(''object'', Str ''list''),
          (''data'', Arr (map (\<lambda>(k, modelId).
                        Obj [(''id'', Str modelId), (''object'', Str ''model''),
                             (''created'', now_seconds w k), (''owned_by'', Str ''user'')])
                      (enumerate 0 (object_keys mapping))))]"

text \<open>\<^verbatim>\<open>v.trim()\<close>: only a string has the method; on anything else the call throws.\<close>

fun call_trim :: "jsval \<Rightarrow> js_error + jsval" where
  "call_trim (Str s) = Inr (Str (trim s))"
| "call_trim Undefined =
     Inl (JsError (''Cannot read properties of undefined (reading '' @ [CHR 0x27] @ ''trim'' @ [CHR 0x27] @ '')''))"
| "call_trim Null =
     Inl (JsError (''Cannot read properties of null (reading '' @ [CHR 0x27] @ ''trim'' @ [CHR 0x27] @ '')''))"
| "call_trim v = Inl (JsError ''websimResponse.content.trim is not a function'')"

text \<open>The \<^verbatim>\<open>chat.completion\<close> object the three scripts build.\<close>

definition chat_completion :: "world \<Rightarrow> jsval \<Rightarrow> jsval \<Rightarrow> jsval" where
  "chat_completion w model content =
     Obj [(''id'', Str (''chatcmpl-'' @ randomUUID w)),
          (''object'', Str ''chat.completion''),
          (''created'', now_seconds w 0),
          (''model'', model),
          (''choices'', Arr [Obj [(''index'', Num 0),
                                 (''message'', Obj [(''role'', Str ''assistant''), (''content'', content)]),
                                 (''finish_reason'', Str ''stop'')]]),
          (''usage'', Obj [(''prompt_tokens'', Null), (''completion_tokens'', Null),
                          (''total_tokens'', Null)])]"

section \<open>\<^verbatim>\<open>src/main.ts\<close>\<close>

definition WEBSIM_CHAT_API_URL :: string where
  "WEBSIM_CHAT_API_URL = ''https://websim.com/api/v1/inference/run_chat_completion''"

definition WEBSIM_IMAGE_API_URL :: string where
  "WEBSIM_IMAGE_API_URL = ''https://websim.com/api/v1/inference/run_image_generation''"

definition WEBSIM_CHAT_PROJECT_ID :: "world \<Rightarrow> string" where
  "WEBSIM_CHAT_PROJECT_ID w = or_default (env_get w ''WEBSIM_CHAT_PROJECT_ID'') ''8n26qj27l_9v7_8fxk9i''"

definition WEBSIM_IMAGE_PROJECT_ID :: "world \<Rightarrow> string" where
  "WEBSIM_IMAGE_PROJECT_ID w = or_default (env_get w ''WEBSIM_IMAGE_PROJECT_ID'') ''7s1bwhja5y2paq235t93''"

definition MODEL_MAPPING_main :: "world \<Rightarrow> jsval" where
  "MODEL_MAPPING_main w =
     Obj [(''websim-chat'',
             Obj [(''type'', Str ''chat''),
                  (''projectId'', Str (WEBSIM_CHAT_PROJECT_ID w)),
                  (''apiUrl'', Str WEBSIM_CHAT_API_URL)]),
          (''websim-image'',
             Obj [(''type'', Str ''image''),
                  (''projectId'', Str (WEBSIM_IMAGE_PROJECT_ID w)),
                  (''apiUrl'', Str WEBSIM_IMAGE_API_URL)])]"

definition handleModels_main :: "world \<Rightarrow> outcome" where
  "handleModels_main w =
     (new_Response (Text (JSON_stringify w (models_list w (MODEL_MAPPING_main w)))) 200
        [(''Content-Type'', ''application/json'')], [])"

text \<open>
  The \<^verbatim>\<open>catch\<close> of both handlers of \<^verbatim>\<open>main.ts\<close>:
  status 500, body \<^verbatim>\<open>{error: error.message || "Internal Server Error"}\<close>, no headers.
\<close>

definition catch_main :: "world \<Rightarrow> outcome \<Rightarrow> outcome" where
  "catch_main w out =
     (case fst out of
        Inl error \<Rightarrow>
          (new_Response
             (Text (JSON_stringify w
                (Obj [(''error'', Str (if message error \<noteq> [] then message error
                                       else ''Internal Server Error''))])))
             500 [], snd out)
      | Inr r \<Rightarrow> out)"

text \<open>What follows \<^verbatim>\<open>await fetch(...)\<close> in \<^verbatim>\<open>handleChatCompletions\<close>, lines 111 to 129.\<close>

definition chat_reply_main :: "world \<Rightarrow> jsval \<Rightarrow> js_error + upstream_reply \<Rightarrow> js_error + response" where
  "chat_reply_main w model fetched =
     (case fetched of
        Inl e \<Rightarrow> Inl e
      | Inr apiResponse \<Rightarrow>
          if \<not> ok apiResponse
          then Inl (JsError (''Upstream API error: '' @ show_nat (reply_status apiResponse)))
          else (case reply_json apiResponse of
                  Inl e \<Rightarrow> Inl e
                | Inr websimResponse \<Rightarrow>
                    (case js_get websimResponse ''content'' of
                       Inl e \<Rightarrow> Inl e
                     | Inr c \<Rightarrow>
                         (case call_trim c of
                            Inl e \<Rightarrow> Inl e
                          | Inr content \<Rightarrow>
                              new_Response (Text (JSON_stringify w (chat_completion w model content))) 200
                                [(''Content-Type'', ''application/json''),
                                 (''Access-Control-Allow-Origin'', ''*'')]))))"

text \<open>The \<^verbatim>\<open>try\<close> block of \<^verbatim>\<open>handleChatCompletions\<close>, lines 93 to 129.\<close>

definition chat_try_main :: "world \<Rightarrow> request \<Rightarrow> outcome" where
  "chat_try_main w req =
     (case json_result req of
        Inl e \<Rightarrow> (Inl e, [ReadBody])
      | Inr openaiRequest \<Rightarrow>
          (case js_get openaiRequest ''model'' of
             Inl e \<Rightarrow> (Inl e, [ReadBody])
           | Inr model \<Rightarrow>
               let modelConfig = get_prop (MODEL_MAPPING_main w) (js_toString model) in
               if \<not> truthy modelConfig \<or> get_prop modelConfig ''type'' \<noteq> Str ''chat''
               then (new_Response
                       (Text (JSON_stringify w
                          (Obj [(''error'', Str (''Chat model not found: '' @ js_toString model))])))
                       404 [], [ReadBody])
               else
                 let websimPayload = Obj [(''project_id'', get_prop modelConfig ''projectId''),
                                          (''messages'', get_prop openaiRequest ''messages'')];
                     url = js_toString (get_prop modelConfig ''apiUrl'');
                     sent = JSON_stringify w websimPayload
                 in (chat_reply_main w model (fetch w url sent), [ReadBody, Fetch url sent])))"

definition handleChatCompletions_main :: "world \<Rightarrow> request \<Rightarrow> outcome" where
  "handleChatCompletions_main w req = catch_main w (chat_try_main w req)"

text \<open>The \<^verbatim>\<open>switch\<close> on \<^verbatim>\<open>openaiRequest.size\<close>, lines 148 to 155; the cases compare with \<^verbatim>\<open>===\<close>.\<close>

definition aspectRatio :: "jsval \<Rightarrow> string" where
  "aspectRatio sz =
     (if sz = Str ''1792x1024'' then ''16:9''
      else if sz = Str ''1024x1792'' then ''9:16''
      else ''1:1'')"

text \<open>What follows \<^verbatim>\<open>await fetch(...)\<close> in \<^verbatim>\<open>handleImageGeneration\<close>, lines 169 to 183.\<close>

definition image_reply_main :: "world \<Rightarrow> js_error + upstream_reply \<Rightarrow> js_error + response" where
  "image_reply_main w fetched =
     (case fetched of
        Inl e \<Rightarrow> Inl e
      | Inr apiResponse \<Rightarrow>
          if \<not> ok apiResponse
          then Inl (JsError (''Upstream API error: '' @ show_nat (reply_status apiResponse)))
          else (case reply_json apiResponse of
                  Inl e \<Rightarrow> Inl e
                | Inr websimResponse \<Rightarrow>
                    (case js_get websimResponse ''url'' of
                       Inl e \<Rightarrow> Inl e
                     | Inr url \<Rightarrow>
                         new_Response
                           (Text (JSON_stringify w
                              (Obj [(''created'', now_seconds w 0),
                                    (''data'', Arr [Obj [(''url'', url)]])])))
                           200
                           [(''Content-Type'', ''application/json''),
                            (''Access-Control-Allow-Origin'', ''*'')])))"

text \<open>The \<^verbatim>\<open>try\<close> block of \<^verbatim>\<open>handleImageGeneration\<close>, lines 139 to 183.\<close>

definition image_try_main :: "world \<Rightarrow> request \<Rightarrow> outcome" where
  "image_try_main w req =
     (case json_result req of
        Inl e \<Rightarrow> (Inl e, [ReadBody])
      | Inr openaiRequest \<Rightarrow>
          (case js_get openaiRequest ''model'' of
             Inl e \<Rightarrow> (Inl e, [ReadBody])
           | Inr model \<Rightarrow>
               let modelConfig = get_prop (MODEL_MAPPING_main w) (js_toString model) in
               if \<not> truthy modelConfig \<or> get_prop modelConfig ''type'' \<noteq> Str ''image''
               then (new_Response
                       (Text (JSON_stringify w
                          (Obj [(''error'', Str (''Image model not found: '' @ js_toString model))])))
                       404 [], [ReadBody])
               else
                 let websimPayload = Obj [(''project_id'', get_prop modelConfig ''projectId''),
                                          (''prompt'', get_prop openaiRequest ''prompt''),
                                          (''aspect_ratio'', Str (aspectRatio (get_prop openaiRequest ''size'')))];
                     url = js_toString (get_prop modelConfig ''apiUrl'');
                     sent = JSON_stringify w websimPayload
                 in (image_reply_main w (fetch w url sent), [ReadBody, Fetch url sent])))"

definition handleImageGeneration_main :: "world \<Rightarrow> request \<Rightarrow> outcome" where
  "handleImageGeneration_main w req = catch_main w (image_try_main w req)"

text \<open>\<^verbatim>\<open>handler\<close> of \<^verbatim>\<open>main.ts\<close>: preflight, then the key check for every path, then the routes.\<close>

definition handler_main :: "world \<Rightarrow> request \<Rightarrow> outcome" where
  "handler_main w req =
     (if http_method req = ''OPTIONS'' then preflight
      else if unauthorized w req
        then (new_Response (Text (JSON_stringify w (Obj [(''error'', Str ''Unauthorized'')]))) 401
                [(''Content-Type'', ''application/json'')], [])
      else if pathname req = ''/v1/models'' then handleModels_main w
      else if pathname req = ''/v1/chat/completions'' then handleChatCompletions_main w req
      else if pathname req = ''/v1/images/generations'' then handleImageGeneration_main w req
      else (new_Response (Text ''Not Found'') 404 [], []))"


section \<open>\<^verbatim>\<open>src/unnamed/part_000\<close> and \<^verbatim>\<open>src/unnamed/part_001\<close>\<close>

definition WEBSIM_API_URL :: string where
  "WEBSIM_API_URL = ''https://websim.com/api/v1/inference/run_chat_completion''"

definition WEBSIM_PROJECT_ID :: "world \<Rightarrow> string" where
  "WEBSIM_PROJECT_ID w = or_default (env_get w ''WEBSIM_PROJECT_ID'') ''8n26qj27l_9v7_8fxk9i''"

text \<open>Both scripts map the one public name straight to the project id.\<close>

definition MODEL_MAPPING_single :: "world \<Rightarrow> jsval" where
  "MODEL_MAPPING_single w = Obj [(''websim-chat'', Str (WEBSIM_PROJECT_ID w))]"

definition corsHeaders :: "(string \<times> string) list" where
  "corsHeaders = [(''Access-Control-Allow-Origin'', ''*'')]"

subsection \<open>\<^verbatim>\<open>part_000\<close>\<close>

definition handleModels_p0 :: "world \<Rightarrow> (string \<times> string) list \<Rightarrow> outcome" where
  "handleModels_p0 w hs =
     (new_Response (Text (JSON_stringify w (models_list w (MODEL_MAPPING_single w)))) 200
        (hs @ [(''Content-Type'', ''application/json'')]), [])"

text \<open>
  \<^verbatim>\<open>websimResponse.content?.trim() ?? ""\<close>, line 115: a missing or \<^verbatim>\<open>null\<close> content gives
  the empty string, a string is trimmed, anything else has no \<^verbatim>\<open>trim\<close> to call.
\<close>

definition content_p0 :: "jsval \<Rightarrow> js_error + jsval" where
  "content_p0 websimResponse =
     (case js_get websimResponse ''content'' of
        Inl e \<Rightarrow> Inl e
      | Inr c \<Rightarrow> if nullish c then Inr (Str []) else call_trim c)"

text \<open>The two chunk objects of lines 128 to 151; each reads the clock for itself.\<close>

definition streamChunk :: "world \<Rightarrow> jsval \<Rightarrow> jsval \<Rightarrow> jsval" where
  "streamChunk w modelId content =
     Obj [(''id'', Str (''chatcmpl-'' @ randomUUID w)),
          (''object'', Str ''chat.completion.chunk''),
          (''created'', now_seconds w 0),
          (''model'', modelId),
          (''choices'', Arr [Obj [(''index'', Num 0),
                                 (''delta'', Obj [(''content'', content)]),
                                 (''finish_reason'', Null)]])]"

definition finalChunk :: "world \<Rightarrow> jsval \<Rightarrow> jsval" where
  "finalChunk w modelId =
     Obj [(''id'', Str (''chatcmpl-'' @ randomUUID w)),
          (''object'', Str ''chat.completion.chunk''),
          (''created'', now_seconds w 1),
          (''model'', modelId),
          (''choices'', Arr [Obj [(''index'', Num 0),
                                 (''delta'', Obj []),
                                 (''finish_reason'', Str ''stop'')]])]"

text \<open>The \<^verbatim>\<open>start(controller)\<close> callback, lines 124 to 161.\<close>

definition start :: "world \<Rightarrow> jsval \<Rightarrow> jsval \<Rightarrow> controller \<Rightarrow> controller" where
  "start w modelId content c =
     close
       (enqueue
          (enqueue
             (enqueue c (''data: '' @ JSON_stringify w (streamChunk w modelId content) @ [CHR 0x0A, CHR 0x0A]))
             (''data: '' @ JSON_stringify w (finalChunk w modelId) @ [CHR 0x0A, CHR 0x0A]))
          (''data: [DONE]'' @ [CHR 0x0A, CHR 0x0A]))"

text \<open>What follows \<^verbatim>\<open>await fetch(...)\<close> in \<^verbatim>\<open>handleChatCompletions\<close>, lines 108 to 192.\<close>

definition chat_reply_p0 ::
  "world \<Rightarrow> jsval \<Rightarrow> jsval \<Rightarrow> (string \<times> string) list \<Rightarrow> js_error + upstream_reply \<Rightarrow> js_error + response" where
  "chat_reply_p0 w openaiRequest modelId hs fetched =
     (case fetched of
        Inl e \<Rightarrow> Inl e
      | Inr apiResponse \<Rightarrow>
          if \<not> ok apiResponse
          then (case reply_text apiResponse of
                  Inl e \<Rightarrow> Inl e
                | Inr errorBody \<Rightarrow>
                    new_Response (Text (''Upstream API error: '' @ reply_statusText apiResponse))
                      (reply_status apiResponse) hs)
          else (case reply_json apiResponse of
                  Inl e \<Rightarrow> Inl e
                | Inr websimResponse \<Rightarrow>
                    (case content_p0 websimResponse of
                       Inl e \<Rightarrow> Inl e
                     | Inr content \<Rightarrow>
                         if get_prop openaiRequest ''stream'' = Bool True
                         then new_Response (Stream (start w modelId content new_controller)) 200
                                (hs @ [(''Content-Type'', ''text/event-stream''),
                                       (''Cache-Control'', ''no-cache''),
                                       (''Connection'', ''keep-alive'')])
                         else new_Response
                                (Text (JSON_stringify w (chat_completion w modelId content))) 200
                                (hs @ [(''Content-Type'', ''application/json'')]))))"

definition handleChatCompletions_p0 :: "world \<Rightarrow> request \<Rightarrow> (string \<times> string) list \<Rightarrow> outcome" where
  "handleChatCompletions_p0 w req hs =
     (if unauthorized w req then (new_Response (Text ''Unauthorized'') 401 hs, [])
      else
        (case json_result req of
           Inl e \<Rightarrow> (new_Response (Text ''Invalid JSON body'') 400 hs, [ReadBody])
         | Inr openaiRequest \<Rightarrow>
             (case js_get openaiRequest ''model'' of
                Inl e \<Rightarrow> (Inl e, [ReadBody])
              | Inr modelId \<Rightarrow>
                  let projectId = get_prop (MODEL_MAPPING_single w) (js_toString modelId) in
                  if \<not> truthy projectId
                  then (new_Response
                          (Text (JSON_stringify w
                             (Obj [(''error'', Str (''Model not found: '' @ js_toString modelId))])))
                          404 (hs @ [(''Content-Type'', ''application/json'')]), [ReadBody])
                  else
                    let websimPayload = Obj [(''project_id'', projectId),
                                             (''messages'', get_prop openaiRequest ''messages'')];
                        sent = JSON_stringify w websimPayload
                    in (chat_reply_p0 w openaiRequest modelId hs (fetch w WEBSIM_API_URL sent),
                        [ReadBody, Fetch WEBSIM_API_URL sent]))))"

text \<open>The \<^verbatim>\<open>catch\<close> of \<^verbatim>\<open>handler\<close>, lines 44 to 50.\<close>

definition catch_p0 :: "world \<Rightarrow> outcome \<Rightarrow> outcome" where
  "catch_p0 w out =
     (case fst out of
        Inl error \<Rightarrow>
          (new_Response (Text (JSON_stringify w (Obj [(''error'', Str ''Internal Server Error'')]))) 500
             (corsHeaders @ [(''Content-Type'', ''application/json'')]), snd out)
      | Inr r \<Rightarrow> out)"

definition handler_p0 :: "world \<Rightarrow> request \<Rightarrow> outcome" where
  "handler_p0 w req =
     (if http_method req = ''OPTIONS'' then preflight
      else catch_p0 w
        (if pathname req = ''/v1/models'' then handleModels_p0 w corsHeaders
         else if pathname req = ''/v1/chat/completions'' then handleChatCompletions_p0 w req corsHeaders
         else (new_Response (Text ''Not Found'') 404 corsHeaders, [])))"

subsection \<open>\<^verbatim>\<open>part_001\<close>\<close>

definition handleModels_p1 :: "world \<Rightarrow> outcome" where
  "handleModels_p1 w =
     (new_Response (Text (JSON_stringify w (models_list w (MODEL_MAPPING_single w)))) 200
        [(''Content-Type'', ''application/json'')], [])"

text \<open>The \<^verbatim>\<open>try\<close> block of \<^verbatim>\<open>handleChatCompletions\<close> from the answer of \<^verbatim>\<open>fetch\<close> on, lines 113 to 150.\<close>

definition chat_reply_p1 :: "world \<Rightarrow> jsval \<Rightarrow> js_error + upstream_reply \<Rightarrow> js_error + response" where
  "chat_reply_p1 w modelId fetched =
     (case fetched of
        Inl e \<Rightarrow> Inl e
      | Inr apiResponse \<Rightarrow>
          if \<not> ok apiResponse
          then (case reply_text apiResponse of
                  Inl e \<Rightarrow> Inl e
                | Inr errorBody \<Rightarrow>
                    new_Response (Text (''Upstream API error: '' @ reply_statusText apiResponse))
                      (reply_status apiResponse) [])
          else (case reply_json apiResponse of
                  Inl e \<Rightarrow> Inl e
                | Inr websimResponse \<Rightarrow>
                    (case js_get websimResponse ''content'' of
                       Inl e \<Rightarrow> Inl e
                     | Inr c \<Rightarrow>
                         (case call_trim c of
                            Inl e \<Rightarrow> Inl e
                          | Inr content \<Rightarrow>
                              new_Response (Text (JSON_stringify w (chat_completion w modelId content))) 200
                                [(''Content-Type'', ''application/json''),
                                 (''Access-Control-Allow-Origin'', ''*'')]))))"

text \<open>The \<^verbatim>\<open>catch\<close> of lines 152 to 155.\<close>

definition catch_p1 :: "js_error + response \<Rightarrow> js_error + response" where
  "catch_p1 r =
     (case r of
        Inl error \<Rightarrow> new_Response (Text ''Internal Server Error'') 500 []
      | Inr resp \<Rightarrow> Inr resp)"

definition handleChatCompletions_p1 :: "world \<Rightarrow> request \<Rightarrow> outcome" where
  "handleChatCompletions_p1 w req =
     (if unauthorized w req then (new_Response (Text ''Unauthorized'') 401 [], [])
      else
        (case json_result req of
           Inl e \<Rightarrow> (new_Response (Text ''Invalid JSON body'') 400 [], [ReadBody])
         | Inr openaiRequest \<Rightarrow>
             (case js_get openaiRequest ''model'' of
                Inl e \<Rightarrow> (Inl e, [ReadBody])
              | Inr modelId \<Rightarrow>
                  let projectId = get_prop (MODEL_MAPPING_single w) (js_toString modelId) in
                  if \<not> truthy projectId
                  then (new_Response
                          (Text (JSON_stringify w
                             (Obj [(''error'', Str (''Model not found: '' @ js_toString modelId))])))
                          404 [], [ReadBody])
                  else
                    let websimPayload = Obj [(''project_id'', projectId),
                                             (''messages'', get_prop openaiRequest ''messages'')];
                        sent = JSON_stringify w websimPayload
                    in (catch_p1 (chat_reply_p1 w modelId (fetch w WEBSIM_API_URL sent)),
                        [ReadBody, Fetch WEBSIM_API_URL sent]))))"

text \<open>\<^verbatim>\<open>handler\<close> of \<^verbatim>\<open>part_001\<close> has no \<^verbatim>\<open>try\<close>: what a route throws leaves the handler.\<close>

definition handler_p1 :: "world \<Rightarrow> request \<Rightarrow> outcome" where
  "handler_p1 w req =
     (if http_method req = ''OPTIONS'' then preflight
      else if pathname req = ''/v1/models'' then handleModels_p1 w
      else if pathname req = ''/v1/chat/completions'' then handleChatCompletions_p1 w req
      else (new_Response (Text ''Not Found'') 404 [], []))"

section \<open>Concrete surroundings for instances\<close>

text \<open>
  A small serialiser standing in for \<^verbatim>\<open>JSON.stringify\<close> where a theorem is instantiated;
  it writes strings without escapes and leaves out \<^verbatim>\<open>undefined\<close> and function members, as
  \<^verbatim>\<open>JSON.stringify\<close> does. The theorems themselves hold for every \<open>JSON_stringify\<close>.
\<close>

fun omitted :: "jsval \<Rightarrow> bool" where
  "omitted Undefined = True"
| "omitted (Fn n) = True"
| "omitted v = False"

fun render :: "jsval \<Rightarrow> string" where
  "render Undefined = ''null''"
| "render Null = ''null''"
| "render (Bool b) = (if b then ''true'' else ''false'')"
| "render (Num n) = show_int n"
| "render (Str s) = [CHR 0x22] @ s @ [CHR 0x22]"
| "render (Arr xs) = ''['' @ join '','' (map render xs) @ '']''"
| "render (Obj ps) =
     ''{'' @ join '','' (map (\<lambda>(k, v). [CHR 0x22] @ k @ [CHR 0x22] @ '':'' @ render v)
                         (filter (\<lambda>(k, v). \<not> omitted v) ps)) @ ''}''"
| "render (Fn n) = ''null''"


text \<open>
  A world with a given \<^verbatim>\<open>API_KEY\<close>, one answer of \<^verbatim>\<open>fetch\<close> for every call, and a clock
  that passes from one second to the next between its first two readings.
\<close>

definition a_world :: "string option \<Rightarrow> js_error + upstream_reply \<Rightarrow> world" where
  "a_world key answer =
     \<lparr>env_get = (\<lambda>k. if k = ''API_KEY'' then key else None),
      fetch = (\<lambda>url sent. answer),
      Date_now = (\<lambda>k. 1999 + k),
      randomUUID = ''7'',
      JSON_stringify = render\<rparr>"

definition a_reply :: "nat \<Rightarrow> string \<Rightarrow> jsval \<Rightarrow> js_error + upstream_reply" where
  "a_reply s t v =
     Inr \<lparr>reply_status = s, reply_statusText = t, reply_text = Inr (render v), reply_json = Inr v\<rparr>"

definition post :: "string \<Rightarrow> string option \<Rightarrow> js_error + jsval \<Rightarrow> request" where
  "post p auth parsed = \<lparr>http_method = ''POST'', pathname = p, authorization = auth, json_result = parsed\<rparr>"

section \<open>Reading an outcome\<close>

definition status_of :: "outcome \<Rightarrow> nat option" where
  "status_of out = (case fst out of Inl e \<Rightarrow> None | Inr r \<Rightarrow> Some (status r))"

definition headers_of :: "outcome \<Rightarrow> (string \<times> string) list" where
  "headers_of out = (case fst out of Inl e \<Rightarrow> [] | Inr r \<Rightarrow> headers r)"

definition upstream_calls :: "outcome \<Rightarrow> event list" where
  "upstream_calls out = filter is_Fetch (snd out)"


section \<open>The three scripts side by side\<close>

datatype script = Main_ts | Part_000 | Part_001

fun handler :: "script \<Rightarrow> world \<Rightarrow> request \<Rightarrow> outcome" where
  "handler Main_ts = handler_main"
| "handler Part_000 = handler_p0"
| "handler Part_001 = handler_p1"

text \<open>The paths a script routes to a handler that calls the upstream.\<close>

fun upstream_route :: "script \<Rightarrow> string \<Rightarrow> bool" where
  "upstream_route Main_ts p = (p = ''/v1/chat/completions'' \<or> p = ''/v1/images/generations'')"
| "upstream_route v p = (p = ''/v1/chat/completions'')"

section \<open>Basic facts\<close>

lemmas route_defs =
  handler_main_def handler_p0_def handler_p1_def handleChatCompletions_p0_def
  handleChatCompletions_p1_def handleChatCompletions_main_def handleImageGeneration_main_def
  handleModels_main_def handleModels_p0_def handleModels_p1_def
  catch_main_def catch_p0_def catch_p1_def preflight_def new_Response_def null_body_status_def
  status_of_def headers_of_def upstream_calls_def

lemmas run_defs =
  route_defs chat_try_main_def image_try_main_def chat_reply_main_def image_reply_main_def
  chat_reply_p0_def chat_reply_p1_def content_p0_def js_get_def ok_def
  MODEL_MAPPING_main_def MODEL_MAPPING_single_def WEBSIM_PROJECT_ID_def WEBSIM_CHAT_PROJECT_ID_def
  WEBSIM_IMAGE_PROJECT_ID_def or_default_def unauthorized_def AUTHORIZATION_KEY_def
  a_world_def a_reply_def post_def object_prototype_keys_def corsHeaders_def Let_def

lemma get_prop_not_nullish: "get_prop v k = Str s \<Longrightarrow> \<not> nullish v"
  by (cases v) auto

lemma unauthorized_iff:
  "AUTHORIZATION_KEY w = Some k \<Longrightarrow> k \<noteq> [] \<Longrightarrow>
   unauthorized w req = (authorization req \<noteq> Some (''Bearer '' @ k))"
  by (auto simp: unauthorized_def split: option.splits)

lemma chat_try_main_cases:
  "snd (chat_try_main w req) = [ReadBody] \<or>
   (\<exists>m url sent. chat_try_main w req = (chat_reply_main w m (fetch w url sent), [ReadBody, Fetch url sent]))"
  by (auto simp add: chat_try_main_def Let_def split: sum.splits)

lemma image_try_main_cases:
  "snd (image_try_main w req) = [ReadBody] \<or>
   (\<exists>url sent. image_try_main w req = (image_reply_main w (fetch w url sent), [ReadBody, Fetch url sent]))"
  by (auto simp add: image_try_main_def Let_def split: sum.splits)

lemma handleChatCompletions_p0_cases:
  "upstream_calls (handleChatCompletions_p0 w req hs) = [] \<or>
   (\<exists>rq m sent. handleChatCompletions_p0 w req hs =
      (chat_reply_p0 w rq m hs (fetch w WEBSIM_API_URL sent), [ReadBody, Fetch WEBSIM_API_URL sent]))"
  by (auto simp add: handleChatCompletions_p0_def upstream_calls_def Let_def split: sum.splits)

lemma handleChatCompletions_p1_cases:
  "upstream_calls (handleChatCompletions_p1 w req) = [] \<or>
   (\<exists>m sent. handleChatCompletions_p1 w req =
      (catch_p1 (chat_reply_p1 w m (fetch w WEBSIM_API_URL sent)), [ReadBody, Fetch WEBSIM_API_URL sent]))"
  by (auto simp add: handleChatCompletions_p1_def upstream_calls_def Let_def split: sum.splits)

lemma upstream_calls_catch_main: "upstream_calls (catch_main w out) = upstream_calls out"
  by (cases out) (simp add: catch_main_def upstream_calls_def split: sum.splits)

lemma upstream_calls_catch_p0: "upstream_calls (catch_p0 w out) = upstream_calls out"
  by (cases out) (simp add: catch_p0_def upstream_calls_def split: sum.splits)

lemma status_catch_main: "status_of (catch_main w (Inl e, t)) = Some 500"
  by (simp add: catch_main_def status_of_def new_Response_def null_body_status_def)

lemma status_catch_p0:
  "status_of (catch_p0 w (x, t)) = (case x of Inl e \<Rightarrow> Some 500 | Inr resp \<Rightarrow> Some (status resp))"
  by (simp add: catch_p0_def status_of_def new_Response_def null_body_status_def split: sum.splits)

lemma status_catch_p1:
  "catch_p1 x = Inr (case x of Inl e \<Rightarrow> \<lparr>status = 500, headers = [], body = Text ''Internal Server Error''\<rparr>
                             | Inr resp \<Rightarrow> resp)"
  by (simp add: catch_p1_def new_Response_def null_body_status_def split: sum.splits)

section \<open>Preflight\<close>

text \<open>
  Claim C6. Every OPTIONS request, whatever its path, its headers and the configured key,
  is answered with status 204 and the three CORS headers, in each of the three scripts;
  nothing is read or called before the answer.
\<close>

theorem options_preflight:
  assumes "http_method req = ''OPTIONS''"
  shows "handler v w req =
           (Inr \<lparr>status = 204,
                 headers = [(''Access-Control-Allow-Origin'', ''*''),
                            (''Access-Control-Allow-Methods'', ''GET, POST, OPTIONS''),
                            (''Access-Control-Allow-Headers'', ''Content-Type, Authorization'')],
                 body = NoBody\<rparr>, [])"
  using assms by (cases v) (simp_all add: route_defs)

theorem options_preflight_witness:
  "http_method \<lparr>http_method = ''OPTIONS'', pathname = ''/v1/chat/completions'', authorization = None,
           json_result = Inl (JsError ''no body'')\<rparr> = ''OPTIONS''
   \<and> AUTHORIZATION_KEY (a_world (Some ''secret'') (Inl (JsError ''down''))) = Some ''secret''
   \<and> status_of (handler Main_ts (a_world (Some ''secret'') (Inl (JsError ''down'')))
        \<lparr>http_method = ''OPTIONS'', pathname = ''/v1/chat/completions'', authorization = None,
         json_result = Inl (JsError ''no body'')\<rparr>) = Some 204"
  using options_preflight [of "\<lparr>http_method = ''OPTIONS'', pathname = ''/v1/chat/completions'',
      authorization = None, json_result = Inl (JsError ''no body'')\<rparr>" Main_ts
      "a_world (Some ''secret'') (Inl (JsError ''down''))"]
  by (simp add: status_of_def AUTHORIZATION_KEY_def a_world_def)

section \<open>Authentication\<close>

text \<open>
  Claim C4. With a non-empty key configured, a request other than OPTIONS to a chat or
  image route whose Authorization header is missing or differs from \<open>''Bearer '' @ k\<close>
  gets status 401, and the run contains no call of the upstream.
\<close>

theorem unauthorized_401:
  assumes "AUTHORIZATION_KEY w = Some k" and "k \<noteq> []"
    and "authorization req \<noteq> Some (''Bearer '' @ k)"
    and "http_method req \<noteq> ''OPTIONS''"
    and "upstream_route v (pathname req)"
  shows "status_of (handler v w req) = Some 401 \<and> upstream_calls (handler v w req) = []"
  using assms unauthorized_iff [OF assms(1,2), of req]
  by (cases v) (auto simp add: route_defs)

theorem unauthorized_401_witness:
  "status_of (handler Main_ts (a_world (Some ''secret'') (a_reply 200 ''OK'' (Obj [(''url'', Str ''u'')])))
      (post ''/v1/images/generations'' (Some ''Bearer wrong'') (Inr (Obj [(''model'', Str ''websim-image'')])))) = Some 401
   \<and> status_of (handler Part_000 (a_world (Some ''secret'') (a_reply 200 ''OK'' (Obj [(''content'', Str ''hi'')])))
      (post ''/v1/chat/completions'' None (Inr (Obj [(''model'', Str ''websim-chat'')])))) = Some 401"
  using unauthorized_401 [of "a_world (Some ''secret'') (a_reply 200 ''OK'' (Obj [(''url'', Str ''u'')]))" "''secret''"
      "post ''/v1/images/generations'' (Some ''Bearer wrong'') (Inr (Obj [(''model'', Str ''websim-image'')]))" Main_ts]
    unauthorized_401 [of "a_world (Some ''secret'') (a_reply 200 ''OK'' (Obj [(''content'', Str ''hi'')]))" "''secret''"
      "post ''/v1/chat/completions'' None (Inr (Obj [(''model'', Str ''websim-chat'')]))" Part_000]
  by (simp add: AUTHORIZATION_KEY_def a_world_def post_def)

text \<open>
  Claim C10. With a non-empty key configured, a request with a missing or wrong
  Authorization header whose body is not JSON gets 401, not 400, and the body is never
  read: the key check comes before \<^verbatim>\<open>req.json()\<close> in each script.
\<close>

theorem auth_before_body:
  assumes "AUTHORIZATION_KEY w = Some k" and "k \<noteq> []"
    and "authorization req \<noteq> Some (''Bearer '' @ k)"
    and "http_method req \<noteq> ''OPTIONS''"
    and "upstream_route v (pathname req)"
    and "json_result req = Inl e"
  shows "status_of (handler v w req) = Some 401 \<and> status_of (handler v w req) \<noteq> Some 400
       \<and> ReadBody \<notin> set (snd (handler v w req))"
  using assms unauthorized_iff [OF assms(1,2), of req]
  by (cases v) (auto simp add: route_defs)

theorem auth_before_body_witness:
  "json_result (post ''/v1/chat/completions'' (Some ''Bearer'') (Inl (JsError ''Unexpected token''))) =
     Inl (JsError ''Unexpected token'')
   \<and> snd (handler Part_001 (a_world (Some ''secret'') (Inl (JsError ''down'')))
      (post ''/v1/chat/completions'' (Some ''Bearer'') (Inl (JsError ''Unexpected token'')))) = []
   \<and> status_of (handler Part_001 (a_world (Some ''secret'') (Inl (JsError ''down'')))
      (post ''/v1/chat/completions'' (Some ''Bearer'') (Inl (JsError ''Unexpected token'')))) = Some 401"
  using auth_before_body [of "a_world (Some ''secret'') (Inl (JsError ''down''))" "''secret''"
      "post ''/v1/chat/completions'' (Some ''Bearer'') (Inl (JsError ''Unexpected token''))" Part_001
      "JsError ''Unexpected token''"]
  by (simp add: AUTHORIZATION_KEY_def a_world_def post_def route_defs unauthorized_def)

section \<open>Upstream failures\<close>

lemma chat_reply_main_not_ok:
  "\<not> ok r \<Longrightarrow> chat_reply_main w m (Inr r) =
     Inl (JsError (''Upstream API error: '' @ show_nat (reply_status r)))"
  by (simp add: chat_reply_main_def)

lemma image_reply_main_not_ok:
  "\<not> ok r \<Longrightarrow> image_reply_main w (Inr r) =
     Inl (JsError (''Upstream API error: '' @ show_nat (reply_status r)))"
  by (simp add: image_reply_main_def)

lemma chat_reply_p0_not_ok:
  "\<not> ok r \<Longrightarrow> chat_reply_p0 w rq m hs (Inr r) = Inr resp \<Longrightarrow>
     status resp = reply_status r \<and> reply_status r \<noteq> 200"
  by (auto simp: chat_reply_p0_def new_Response_def ok_def split: sum.splits if_splits)

lemma chat_reply_p1_not_ok:
  "\<not> ok r \<Longrightarrow> chat_reply_p1 w m (Inr r) = Inr resp \<Longrightarrow>
     status resp = reply_status r \<and> reply_status r \<noteq> 200"
  by (auto simp: chat_reply_p1_def new_Response_def ok_def split: sum.splits if_splits)

lemma no_calls_yet: "upstream_calls (x, []) = []"
  by (simp add: upstream_calls_def)

lemma upstream_failure_main:
  assumes "\<forall>url sent. fetch w url sent = Inr r" and "\<not> ok r"
    and "upstream_calls (handler_main w req) \<noteq> []"
  shows "status_of (handler_main w req) = Some 500"
proof -
  from assms(3) consider
      (chat) "handler_main w req = catch_main w (chat_try_main w req)"
        "upstream_calls (chat_try_main w req) \<noteq> []"
    | (image) "handler_main w req = catch_main w (image_try_main w req)"
        "upstream_calls (image_try_main w req) \<noteq> []"
    by (auto simp: handler_main_def preflight_def handleModels_main_def no_calls_yet
        handleChatCompletions_main_def handleImageGeneration_main_def upstream_calls_catch_main
        split: if_splits)
  then show ?thesis
  proof cases
    case chat
    with chat_try_main_cases [of w req] obtain m url sent where
      "chat_try_main w req = (chat_reply_main w m (fetch w url sent), [ReadBody, Fetch url sent])"
      by (auto simp: upstream_calls_def)
    with assms(1) chat show ?thesis
      by (simp add: chat_reply_main_not_ok [OF assms(2)] status_catch_main)
  next
    case image
    with image_try_main_cases [of w req] obtain url sent where
      "image_try_main w req = (image_reply_main w (fetch w url sent), [ReadBody, Fetch url sent])"
      by (auto simp: upstream_calls_def)
    with assms(1) image show ?thesis
      by (simp add: image_reply_main_not_ok [OF assms(2)] status_catch_main)
  qed
qed

lemma upstream_failure_p0:
  assumes "\<forall>url sent. fetch w url sent = Inr r" and "\<not> ok r"
    and "upstream_calls (handler_p0 w req) \<noteq> []"
  shows "status_of (handler_p0 w req) = Some 500 \<or>
         status_of (handler_p0 w req) = Some (reply_status r) \<and> reply_status r \<noteq> 200"
proof -
  from assms(3) have h: "handler_p0 w req = catch_p0 w (handleChatCompletions_p0 w req corsHeaders)"
    and c: "upstream_calls (handleChatCompletions_p0 w req corsHeaders) \<noteq> []"
    by (auto simp: handler_p0_def preflight_def handleModels_p0_def no_calls_yet upstream_calls_catch_p0
        split: if_splits)
  from c handleChatCompletions_p0_cases [of w req corsHeaders] obtain rq m sent where
    "handleChatCompletions_p0 w req corsHeaders =
      (chat_reply_p0 w rq m corsHeaders (fetch w WEBSIM_API_URL sent), [ReadBody, Fetch WEBSIM_API_URL sent])"
    by auto
  with assms(1) h show ?thesis
    by (auto simp: status_catch_p0 dest: chat_reply_p0_not_ok [OF assms(2)] split: sum.splits)
qed

lemma upstream_failure_p1:
  assumes "\<forall>url sent. fetch w url sent = Inr r" and "\<not> ok r"
    and "upstream_calls (handler_p1 w req) \<noteq> []"
  shows "status_of (handler_p1 w req) = Some 500 \<or>
         status_of (handler_p1 w req) = Some (reply_status r) \<and> reply_status r \<noteq> 200"
proof -
  from assms(3) have h: "handler_p1 w req = handleChatCompletions_p1 w req"
    and c: "upstream_calls (handleChatCompletions_p1 w req) \<noteq> []"
    by (auto simp: handler_p1_def preflight_def handleModels_p1_def no_calls_yet
        split: if_splits)
  from c handleChatCompletions_p1_cases [of w req] obtain m sent where
    "handleChatCompletions_p1 w req =
      (catch_p1 (chat_reply_p1 w m (fetch w WEBSIM_API_URL sent)), [ReadBody, Fetch WEBSIM_API_URL sent])"
    by auto
  with assms(1) h show ?thesis
    by (auto simp: status_catch_p1 status_of_def dest: chat_reply_p1_not_ok [OF assms(2)] split: sum.splits)
qed

text \<open>
  Claim C5. When the upstream answers every call with a status outside 200..299, a run
  that called it returns a response (nothing is thrown out of the handler) whose status is
  the upstream's own or 500, and is not 200.
\<close>

theorem upstream_failure_never_200:
  assumes "\<forall>url sent. fetch w url sent = Inr r" and "\<not> ok r"
    and "upstream_calls (handler v w req) \<noteq> []"
  shows "(status_of (handler v w req) = Some (reply_status r) \<or> status_of (handler v w req) = Some 500)
       \<and> status_of (handler v w req) \<noteq> Some 200"
  using upstream_failure_main [OF assms(1,2), of req] upstream_failure_p0 [OF assms(1,2), of req]
    upstream_failure_p1 [OF assms(1,2), of req] assms(3)
  by (cases v) auto

theorem upstream_failure_never_200_witness:
  "upstream_calls (handler Part_000 (a_world None (a_reply 503 ''Service Unavailable'' (Obj [])))
      (post ''/v1/chat/completions'' None (Inr (Obj [(''model'', Str ''websim-chat''), (''messages'', Arr [])])))) \<noteq> []
   \<and> status_of (handler Part_000 (a_world None (a_reply 503 ''Service Unavailable'' (Obj [])))
      (post ''/v1/chat/completions'' None (Inr (Obj [(''model'', Str ''websim-chat''), (''messages'', Arr [])])))) = Some 503
   \<and> status_of (handler Main_ts (a_world None (a_reply 503 ''Service Unavailable'' (Obj [])))
      (post ''/v1/chat/completions'' None (Inr (Obj [(''model'', Str ''websim-chat''), (''messages'', Arr [])])))) = Some 500"
proof -
  let ?w = "a_world None (a_reply 503 ''Service Unavailable'' (Obj []))"
  let ?r = "\<lparr>reply_status = 503, reply_statusText = ''Service Unavailable'',
             reply_text = Inr (render (Obj [])), reply_json = Inr (Obj [])\<rparr>"
  let ?req = "post ''/v1/chat/completions'' None (Inr (Obj [(''model'', Str ''websim-chat''), (''messages'', Arr [])]))"
  have f: "\<forall>url sent. fetch ?w url sent = Inr ?r"
    by (simp add: a_world_def a_reply_def)
  have n: "\<not> ok ?r" by (simp add: ok_def)
  have c0: "upstream_calls (handler Part_000 ?w ?req) \<noteq> []"
    by (simp add: run_defs)
  have c1: "upstream_calls (handler Main_ts ?w ?req) \<noteq> []"
    by (simp add: run_defs)
  have "status_of (handler Part_000 ?w ?req) \<noteq> Some 500"
    by (simp add: run_defs)
  with upstream_failure_never_200 [OF f n c0] upstream_failure_never_200 [OF f n c1] c0
  show ?thesis by (simp add: run_defs)
qed



section \<open>Image generation\<close>

text \<open>
  Claim C7. An image request that passes the key check, parses and names the image model
  makes exactly one upstream call, to the image URL, whose body is \<^verbatim>\<open>JSON.stringify\<close> of
  the object with the members \<^verbatim>\<open>project_id\<close>, \<^verbatim>\<open>prompt\<close> and \<^verbatim>\<open>aspect_ratio\<close>, in this order.
  The aspect ratio is 16:9 for the size 1792x1024, 9:16 for 1024x1792 and 1:1 for
  1024x1024 and for every other value of \<^verbatim>\<open>size\<close>, the missing one included: no size
  stops the call. (A request without a prompt has \<^verbatim>\<open>prompt: undefined\<close> in the object.)
\<close>

theorem image_payload:
  assumes "http_method req \<noteq> ''OPTIONS''" and "\<not> unauthorized w req"
    and "pathname req = ''/v1/images/generations''"
    and "json_result req = Inr rq" and "\<not> nullish rq"
    and "js_toString (get_prop rq ''model'') = ''websim-image''"
  shows "\<exists>ar. snd (handler_main w req) =
            [ReadBody,
             Fetch WEBSIM_IMAGE_API_URL
               (JSON_stringify w
                  (Obj [(''project_id'', Str (WEBSIM_IMAGE_PROJECT_ID w)),
                        (''prompt'', get_prop rq ''prompt''),
                        (''aspect_ratio'', Str ar)]))]
          \<and> (get_prop rq ''size'' = Str ''1792x1024'' \<longrightarrow> ar = ''16:9'')
          \<and> (get_prop rq ''size'' = Str ''1024x1792'' \<longrightarrow> ar = ''9:16'')
          \<and> (get_prop rq ''size'' = Str ''1024x1024'' \<longrightarrow> ar = ''1:1'')
          \<and> (get_prop rq ''size'' \<noteq> Str ''1792x1024'' \<and> get_prop rq ''size'' \<noteq> Str ''1024x1792''
                \<longrightarrow> ar = ''1:1'')"
  using assms
  by (simp add: handler_main_def handleImageGeneration_main_def catch_main_def image_try_main_def
      js_get_def MODEL_MAPPING_main_def aspectRatio_def Let_def split: sum.splits)

theorem image_payload_witness:
  "snd (handler_main (a_world None (a_reply 200 ''OK'' (Obj [(''url'', Str ''u'')])))
      (post ''/v1/images/generations'' None
         (Inr (Obj [(''model'', Str ''websim-image''), (''prompt'', Str ''a cat''), (''size'', Str ''1792x1024'')])))) =
     [ReadBody,
      Fetch WEBSIM_IMAGE_API_URL
        (render (Obj [(''project_id'', Str ''7s1bwhja5y2paq235t93''), (''prompt'', Str ''a cat''),
                      (''aspect_ratio'', Str ''16:9'')]))]
   \<and> (\<exists>ar. snd (handler_main (a_world None (a_reply 200 ''OK'' (Obj [(''url'', Str ''u'')])))
      (post ''/v1/images/generations'' None
         (Inr (Obj [(''model'', Str ''websim-image''), (''prompt'', Str ''a cat''), (''size'', Str ''512x512'')])))) =
     [ReadBody,
      Fetch WEBSIM_IMAGE_API_URL
        (render (Obj [(''project_id'', Str ''7s1bwhja5y2paq235t93''), (''prompt'', Str ''a cat''),
                      (''aspect_ratio'', Str ar)]))] \<and> ar = ''1:1'')"
proof -
  let ?w = "a_world None (a_reply 200 ''OK'' (Obj [(''url'', Str ''u'')]))"
  let ?rq = "\<lambda>sz. Obj [(''model'', Str ''websim-image''), (''prompt'', Str ''a cat''), (''size'', Str sz)]"
  let ?req = "\<lambda>sz. post ''/v1/images/generations'' None (Inr (?rq sz))"
  have h: "http_method (?req sz) \<noteq> ''OPTIONS''" "\<not> unauthorized ?w (?req sz)"
    "pathname (?req sz) = ''/v1/images/generations''" "json_result (?req sz) = Inr (?rq sz)"
    "\<not> nullish (?rq sz)" "js_toString (get_prop (?rq sz) ''model'') = ''websim-image''" for sz
    by (simp_all add: post_def unauthorized_def AUTHORIZATION_KEY_def a_world_def)
  from image_payload [OF h, of "''1792x1024''"] image_payload [OF h, of "''512x512''"]
  show ?thesis
    by (simp add: a_world_def WEBSIM_IMAGE_PROJECT_ID_def or_default_def)
qed

section \<open>The model list\<close>

text \<open>
  Claim C8, as stated, fails in \<^verbatim>\<open>main.ts\<close>: its router checks the key before it looks at
  the path, so with a key configured a request for the model list without the header is
  turned away.
\<close>

theorem models_need_key_main:
  "status_of (handler Main_ts (a_world (Some ''secret'') (Inl (JsError ''down'')))
      \<lparr>http_method = ''GET'', pathname = ''/v1/models'', authorization = None,
       json_result = Inl (JsError ''no body'')\<rparr>) = Some 401
   \<and> status_of (handler Main_ts (a_world (Some ''secret'') (Inl (JsError ''down'')))
      \<lparr>http_method = ''GET'', pathname = ''/v1/models'', authorization = None,
       json_result = Inl (JsError ''no body'')\<rparr>) \<noteq> Some 200"
  by (simp add: run_defs)

text \<open>
  Claim C8, amended. A request other than OPTIONS for \<^verbatim>\<open>/v1/models\<close> is answered by
  \<^verbatim>\<open>part_000\<close> and \<^verbatim>\<open>part_001\<close> without any key check, and by \<^verbatim>\<open>main.ts\<close> when the
  router's key check passes (no key configured, or the matching header); otherwise
  \<^verbatim>\<open>main.ts\<close> answers 401. The answer has status 200 and the JSON body
  \<^verbatim>\<open>{object: "list", data: [...]}\<close> with one entry
  \<^verbatim>\<open>{id, object: "model", created, owned_by: "user"}\<close> per key of the model table, each key
  once, each \<^verbatim>\<open>created\<close> the seconds of a clock reading taken for that entry.
\<close>

theorem models_list_served:
  assumes "http_method req \<noteq> ''OPTIONS''" and "pathname req = ''/v1/models''"
  shows "handler Part_000 w req =
           (Inr \<lparr>status = 200,
                 headers = [(''Access-Control-Allow-Origin'', ''*''), (''Content-Type'', ''application/json'')],
                 body = Text (JSON_stringify w
                   (Obj [(''object'', Str ''list''),
                         (''data'', Arr [Obj [(''id'', Str ''websim-chat''), (''object'', Str ''model''),
                                              (''created'', Num (int (Date_now w 0 div 1000))),
                                              (''owned_by'', Str ''user'')]])]))\<rparr>, [])
       \<and> handler Part_001 w req =
           (Inr \<lparr>status = 200,
                 headers = [(''Content-Type'', ''application/json'')],
                 body = Text (JSON_stringify w
                   (Obj [(''object'', Str ''list''),
                         (''data'', Arr [Obj [(''id'', Str ''websim-chat''), (''object'', Str ''model''),
                                              (''created'', Num (int (Date_now w 0 div 1000))),
                                              (''owned_by'', Str ''user'')]])]))\<rparr>, [])
       \<and> (\<not> unauthorized w req \<longrightarrow> handler Main_ts w req =
           (Inr \<lparr>status = 200,
                 headers = [(''Content-Type'', ''application/json'')],
                 body = Text (JSON_stringify w
                   (Obj [(''object'', Str ''list''),
                         (''data'', Arr [Obj [(''id'', Str ''websim-chat''), (''object'', Str ''model''),
                                              (''created'', Num (int (Date_now w 0 div 1000))),
                                              (''owned_by'', Str ''user'')],
                                         Obj [(''id'', Str ''websim-image''), (''object'', Str ''model''),
                                              (''created'', Num (int (Date_now w 1 div 1000))),
                                              (''owned_by'', Str ''user'')]])]))\<rparr>, []))
       \<and> (unauthorized w req \<longrightarrow> status_of (handler Main_ts w req) = Some 401)"
  using assms
  by (simp add: route_defs corsHeaders_def models_list_def MODEL_MAPPING_single_def
      MODEL_MAPPING_main_def now_seconds_def enumerate_eq_zip)

theorem models_list_served_witness:
  "status_of (handler Part_000 (a_world (Some ''secret'') (Inl (JsError ''down'')))
      \<lparr>http_method = ''GET'', pathname = ''/v1/models'', authorization = None,
       json_result = Inl (JsError ''no body'')\<rparr>) = Some 200
   \<and> status_of (handler Main_ts (a_world (Some ''secret'') (Inl (JsError ''down'')))
      \<lparr>http_method = ''GET'', pathname = ''/v1/models'', authorization = None,
       json_result = Inl (JsError ''no body'')\<rparr>) = Some 401
   \<and> status_of (handler Main_ts (a_world (Some ''secret'') (Inl (JsError ''down'')))
      \<lparr>http_method = ''GET'', pathname = ''/v1/models'', authorization = Some ''Bearer secret'',
       json_result = Inl (JsError ''no body'')\<rparr>) = Some 200"
proof -
  let ?w = "a_world (Some ''secret'') (Inl (JsError ''down''))"
  let ?req = "\<lambda>a. \<lparr>http_method = ''GET'', pathname = ''/v1/models'', authorization = a,
       json_result = Inl (JsError ''no body'')\<rparr>"
  have h: "http_method (?req a) \<noteq> ''OPTIONS''" "pathname (?req a) = ''/v1/models''" for a
    by simp_all
  have u: "unauthorized ?w (?req None)" "\<not> unauthorized ?w (?req (Some ''Bearer secret''))"
    by (simp_all add: unauthorized_def AUTHORIZATION_KEY_def a_world_def)
  from models_list_served [of "?req None" ?w] models_list_served [of "?req (Some ''Bearer secret'')" ?w] h u
  show ?thesis
    by (simp add: status_of_def)
qed


section \<open>Chat completions: the answer to a successful upstream call\<close>

text \<open>
  What \<^verbatim>\<open>part_000\<close>, the one script that emulates streaming, answers to a chat request with
  \<^verbatim>\<open>stream === true\<close> whose model resolves and whose upstream call succeeds: status 200, the
  CORS header, \<^verbatim>\<open>Content-Type: text/event-stream\<close>, \<^verbatim>\<open>Cache-Control: no-cache\<close> and
  \<^verbatim>\<open>Connection: keep-alive\<close>, and a stream into which exactly three chunks are enqueued, each
  \<^verbatim>\<open>data: \<close>, a payload and two line feeds, and which is closed after the third. The first
  payload is a \<^verbatim>\<open>chat.completion.chunk\<close> whose \<^verbatim>\<open>delta.content\<close> is the whole content (the
  trimmed string, or the empty string when the reply has none) with \<^verbatim>\<open>finish_reason\<close> null,
  the second has the same \<^verbatim>\<open>id\<close> and \<^verbatim>\<open>model\<close>, an empty \<^verbatim>\<open>delta\<close> and \<^verbatim>\<open>finish_reason\<close>
  \<^verbatim>\<open>"stop"\<close>, the third is \<^verbatim>\<open>[DONE]\<close>. The \<^verbatim>\<open>created\<close> of the first chunk comes from clock
  reading 0 and that of the second from clock reading 1.
\<close>

lemma content_p0_string: "get_prop wr ''content'' = Str s \<Longrightarrow> content_p0 wr = Inr (Str (trim s))"
  using get_prop_not_nullish [of wr "''content''" s]
  by (simp add: content_p0_def js_get_def)

lemma content_p0_absent:
  "\<not> nullish wr \<Longrightarrow> nullish (get_prop wr ''content'') \<Longrightarrow> content_p0 wr = Inr (Str [])"
  by (simp add: content_p0_def js_get_def)

lemma stream_frames:
  assumes "http_method req \<noteq> ''OPTIONS''" and "pathname req = ''/v1/chat/completions''"
    and "\<not> unauthorized w req"
    and "json_result req = Inr rq" and "\<not> nullish rq"
    and "truthy (get_prop (MODEL_MAPPING_single w) (js_toString (get_prop rq ''model'')))"
    and "get_prop rq ''stream'' = Bool True"
    and "\<forall>url sent. fetch w url sent = Inr reply" and "ok reply"
    and "reply_json reply = Inr wr" and "content_p0 wr = Inr content"
  shows "fst (handler_p0 w req) =
           Inr \<lparr>status = 200,
                headers = [(''Access-Control-Allow-Origin'', ''*''),
                           (''Content-Type'', ''text/event-stream''),
                           (''Cache-Control'', ''no-cache''),
                           (''Connection'', ''keep-alive'')],
                body = Stream
                  \<lparr>queue =
                     [''data: '' @ JSON_stringify w
                        (Obj [(''id'', Str (''chatcmpl-'' @ randomUUID w)),
                              (''object'', Str ''chat.completion.chunk''),
                              (''created'', Num (int (Date_now w 0 div 1000))),
                              (''model'', get_prop rq ''model''),
                              (''choices'', Arr [Obj [(''index'', Num 0),
                                                     (''delta'', Obj [(''content'', content)]),
                                                     (''finish_reason'', Null)]])])
                        @ [CHR 0x0A, CHR 0x0A],
                      ''data: '' @ JSON_stringify w
                        (Obj [(''id'', Str (''chatcmpl-'' @ randomUUID w)),
                              (''object'', Str ''chat.completion.chunk''),
                              (''created'', Num (int (Date_now w 1 div 1000))),
                              (''model'', get_prop rq ''model''),
                              (''choices'', Arr [Obj [(''index'', Num 0),
                                                     (''delta'', Obj []),
                                                     (''finish_reason'', Str ''stop'')]])])
                        @ [CHR 0x0A, CHR 0x0A],
                      ''data: [DONE]'' @ [CHR 0x0A, CHR 0x0A]],
                   closed = True\<rparr>\<rparr>"
  using assms
  by (simp add: handler_p0_def handleChatCompletions_p0_def catch_p0_def chat_reply_p0_def
      js_get_def new_Response_def null_body_status_def corsHeaders_def Let_def
      start_def streamChunk_def finalChunk_def enqueue_def close_def new_controller_def
      now_seconds_def)

text \<open>
  Claim C1 asks that the terminal chunk share \<^verbatim>\<open>id\<close>, \<^verbatim>\<open>created\<close> and \<^verbatim>\<open>model\<close> with the first.
  \<^verbatim>\<open>part_000\<close> keeps the \<^verbatim>\<open>id\<close> in \<^verbatim>\<open>chunkId\<close> and the model in \<^verbatim>\<open>modelId\<close>, but writes
  \<^verbatim>\<open>Math.floor(Date.now() / 1000)\<close> a second time for the final chunk (lines 131 and 144).
  When the clock reads 1999 ms at the first call and 2000 ms at the second, the response
  is the three-chunk stream with all the headers of the claim, and the two chunks carry
  \<^verbatim>\<open>created\<close> 1 and 2.
\<close>

theorem stream_created_differs:
  "fst (handler_p0 (a_world None (a_reply 200 ''OK'' (Obj [(''content'', Str ''  Hello  '')])))
         (post ''/v1/chat/completions'' None
            (Inr (Obj [(''model'', Str ''websim-chat''), (''messages'', Arr []), (''stream'', Bool True)])))) =
     Inr \<lparr>status = 200,
          headers = [(''Access-Control-Allow-Origin'', ''*''),
                     (''Content-Type'', ''text/event-stream''),
                     (''Cache-Control'', ''no-cache''),
                     (''Connection'', ''keep-alive'')],
          body = Stream
            \<lparr>queue =
               [''data: '' @ render (streamChunk
                    (a_world None (a_reply 200 ''OK'' (Obj [(''content'', Str ''  Hello  '')])))
                    (Str ''websim-chat'') (Str ''Hello''))
                  @ [CHR 0x0A, CHR 0x0A],
                ''data: '' @ render (finalChunk
                    (a_world None (a_reply 200 ''OK'' (Obj [(''content'', Str ''  Hello  '')])))
                    (Str ''websim-chat''))
                  @ [CHR 0x0A, CHR 0x0A],
                ''data: [DONE]'' @ [CHR 0x0A, CHR 0x0A]],
             closed = True\<rparr>\<rparr>
   \<and> Date_now (a_world None (a_reply 200 ''OK'' (Obj [(''content'', Str ''  Hello  '')]))) 0 = 1999
   \<and> Date_now (a_world None (a_reply 200 ''OK'' (Obj [(''content'', Str ''  Hello  '')]))) 1 = 2000
   \<and> get_prop (streamChunk (a_world None (a_reply 200 ''OK'' (Obj [(''content'', Str ''  Hello  '')])))
                 (Str ''websim-chat'') (Str ''Hello'')) ''created'' = Num 1
   \<and> get_prop (finalChunk (a_world None (a_reply 200 ''OK'' (Obj [(''content'', Str ''  Hello  '')])))
                 (Str ''websim-chat'')) ''created'' = Num 2
   \<and> get_prop (streamChunk (a_world None (a_reply 200 ''OK'' (Obj [(''content'', Str ''  Hello  '')])))
                 (Str ''websim-chat'') (Str ''Hello'')) ''id'' =
       get_prop (finalChunk (a_world None (a_reply 200 ''OK'' (Obj [(''content'', Str ''  Hello  '')])))
                 (Str ''websim-chat'')) ''id''"
  by (simp add: run_defs start_def streamChunk_def finalChunk_def enqueue_def close_def new_controller_def
      now_seconds_def trim_def is_space_def)

text \<open>
  Claim C2: its second half fails on \<^verbatim>\<open>main.ts\<close> and \<^verbatim>\<open>part_001\<close>. Both call
  \<^verbatim>\<open>websimResponse.content.trim()\<close>, which throws when the upstream's reply has no \<^verbatim>\<open>content\<close>;
  the \<^verbatim>\<open>catch\<close> turns it into a 500. \<^verbatim>\<open>part_000\<close> reads \<^verbatim>\<open>content?.trim() ?? ""\<close> and answers
  200 with the empty string. Here the upstream replies 200 with \<^verbatim>\<open>{}\<close>.
\<close>

theorem absent_content_fails:
  "status_of (handler Main_ts (a_world None (a_reply 200 ''OK'' (Obj [])))
      (post ''/v1/chat/completions'' None (Inr (Obj [(''model'', Str ''websim-chat''), (''messages'', Arr [])])))) = Some 500
   \<and> status_of (handler Part_001 (a_world None (a_reply 200 ''OK'' (Obj [])))
      (post ''/v1/chat/completions'' None (Inr (Obj [(''model'', Str ''websim-chat''), (''messages'', Arr [])])))) = Some 500
   \<and> fst (handler Part_000 (a_world None (a_reply 200 ''OK'' (Obj [])))
      (post ''/v1/chat/completions'' None (Inr (Obj [(''model'', Str ''websim-chat''), (''messages'', Arr [])])))) =
      Inr \<lparr>status = 200,
           headers = [(''Access-Control-Allow-Origin'', ''*''), (''Content-Type'', ''application/json'')],
           body = Text (render (chat_completion (a_world None (a_reply 200 ''OK'' (Obj [])))
                                  (Str ''websim-chat'') (Str [])))\<rparr>"
  by (simp add: run_defs)

text \<open>
  The first half of C2 holds in all three scripts: a string \<^verbatim>\<open>content\<close> comes back trimmed
  in a 200 \<^verbatim>\<open>chat.completion\<close> whose \<^verbatim>\<open>finish_reason\<close> is \<^verbatim>\<open>"stop"\<close> (see \<open>chat_completion\<close>).
  And \<^verbatim>\<open>part_000\<close> takes a missing or \<^verbatim>\<open>null\<close> content for the empty string.
\<close>

lemma content_trimmed:
  assumes "http_method req \<noteq> ''OPTIONS''" and "pathname req = ''/v1/chat/completions''"
    and "\<not> unauthorized w req"
    and "json_result req = Inr rq" and "get_prop rq ''model'' = Str ''websim-chat''"
    and "get_prop rq ''stream'' \<noteq> Bool True"
    and "\<forall>url sent. fetch w url sent = Inr reply" and "ok reply"
    and "reply_json reply = Inr wr" and "get_prop wr ''content'' = Str s"
  shows "\<exists>hs. fst (handler v w req) =
           Inr \<lparr>status = 200, headers = hs,
                body = Text (JSON_stringify w (chat_completion w (Str ''websim-chat'') (Str (trim s))))\<rparr>"
  using assms get_prop_not_nullish [OF assms(10)] get_prop_not_nullish [OF assms(5)]
  by (cases v)
     (simp_all add: route_defs chat_try_main_def chat_reply_main_def chat_reply_p0_def chat_reply_p1_def
        content_p0_def js_get_def MODEL_MAPPING_main_def MODEL_MAPPING_single_def WEBSIM_PROJECT_ID_def
        or_default_def Let_def split: option.splits)

lemma content_absent_p0:
  assumes "http_method req \<noteq> ''OPTIONS''" and "pathname req = ''/v1/chat/completions''"
    and "\<not> unauthorized w req"
    and "json_result req = Inr rq" and "get_prop rq ''model'' = Str ''websim-chat''"
    and "get_prop rq ''stream'' \<noteq> Bool True"
    and "\<forall>url sent. fetch w url sent = Inr reply" and "ok reply"
    and "reply_json reply = Inr wr" and "\<not> nullish wr" and "nullish (get_prop wr ''content'')"
  shows "fst (handler_p0 w req) =
           Inr \<lparr>status = 200,
                headers = [(''Access-Control-Allow-Origin'', ''*''), (''Content-Type'', ''application/json'')],
                body = Text (JSON_stringify w (chat_completion w (Str ''websim-chat'') (Str [])))\<rparr>"
  using assms get_prop_not_nullish [OF assms(5)]
  by (simp add: route_defs chat_reply_p0_def
        content_p0_def js_get_def MODEL_MAPPING_single_def WEBSIM_PROJECT_ID_def corsHeaders_def
        or_default_def Let_def split: option.splits)

section \<open>Unknown models\<close>

text \<open>
  Claim C3 fails on \<^verbatim>\<open>part_000\<close> and \<^verbatim>\<open>part_001\<close> for the names an object literal inherits.
  Their test is \<^verbatim>\<open>!MODEL_MAPPING[modelId]\<close>, and \<^verbatim>\<open>MODEL_MAPPING["constructor"]\<close> is the
  function \<^verbatim>\<open>Object\<close>, which is truthy: the request is not refused, the upstream is called
  (with a payload whose \<^verbatim>\<open>project_id\<close> is that function) and its answer is passed on.
  \<open>''constructor''\<close> is not a key of the model table.
\<close>

theorem inherited_name_reaches_upstream:
  "handler Part_000 (a_world None (a_reply 200 ''OK'' (Obj [(''content'', Str ''hi'')])))
      (post ''/v1/chat/completions'' None (Inr (Obj [(''model'', Str ''constructor''), (''messages'', Arr [])]))) =
     (Inr \<lparr>status = 200,
           headers = [(''Access-Control-Allow-Origin'', ''*''), (''Content-Type'', ''application/json'')],
           body = Text (render (chat_completion
                    (a_world None (a_reply 200 ''OK'' (Obj [(''content'', Str ''hi'')])))
                    (Str ''constructor'') (Str ''hi'')))\<rparr>,
      [ReadBody, Fetch WEBSIM_API_URL (render (Obj [(''project_id'', Fn ''constructor''), (''messages'', Arr [])]))])
   \<and> ''constructor'' \<notin> set (object_keys (MODEL_MAPPING_single
                                (a_world None (a_reply 200 ''OK'' (Obj [(''content'', Str ''hi'')])))))
   \<and> upstream_calls (handler Part_001 (a_world None (a_reply 200 ''OK'' (Obj [(''content'', Str ''hi'')])))
      (post ''/v1/chat/completions'' None (Inr (Obj [(''model'', Str ''constructor''), (''messages'', Arr [])])))) \<noteq> []"
  by (simp add: run_defs chat_completion_def now_seconds_def trim_def is_space_def)

text \<open>
  \<^verbatim>\<open>main.ts\<close> also tests \<^verbatim>\<open>modelConfig.type !== 'chat'\<close>, and there C3 holds for every model
  string other than the chat model's name.
\<close>

lemma model_not_found_main:
  assumes "http_method req \<noteq> ''OPTIONS''" and "pathname req = ''/v1/chat/completions''"
    and "\<not> unauthorized w req"
    and "json_result req = Inr rq" and "get_prop rq ''model'' = Str m" and "m \<noteq> ''websim-chat''"
  shows "handler_main w req =
           (Inr \<lparr>status = 404, headers = [],
                 body = Text (JSON_stringify w (Obj [(''error'', Str (''Chat model not found: '' @ m))]))\<rparr>,
            [ReadBody])"
  using assms get_prop_not_nullish [OF assms(5)]
  by (simp add: route_defs chat_try_main_def js_get_def MODEL_MAPPING_main_def Let_def)

section \<open>CORS headers on error responses\<close>

text \<open>
  Claim C9 fails on \<^verbatim>\<open>main.ts\<close> (and on \<^verbatim>\<open>part_001\<close>): the 404 for an unknown model has no
  headers at all, and the 401 has only a content type. \<^verbatim>\<open>part_000\<close> puts
  \<^verbatim>\<open>Access-Control-Allow-Origin\<close> on every response it returns.
\<close>

theorem error_without_cors:
  "handler Main_ts (a_world (Some ''secret'') (Inl (JsError ''down'')))
      (post ''/v1/chat/completions'' (Some ''Bearer secret'')
         (Inr (Obj [(''model'', Str ''unknown-model''), (''messages'', Arr [])]))) =
     (Inr \<lparr>status = 404, headers = [],
           body = Text (render (Obj [(''error'', Str ''Chat model not found: unknown-model'')]))\<rparr>, [ReadBody])
   \<and> headers_of (handler Main_ts (a_world (Some ''secret'') (Inl (JsError ''down'')))
      (post ''/v1/chat/completions'' None
         (Inr (Obj [(''model'', Str ''websim-chat''), (''messages'', Arr [])])))) =
       [(''Content-Type'', ''application/json'')]
   \<and> status_of (handler Main_ts (a_world (Some ''secret'') (Inl (JsError ''down'')))
      (post ''/v1/chat/completions'' None
         (Inr (Obj [(''model'', Str ''websim-chat''), (''messages'', Arr [])])))) = Some 401"
  by (simp add: run_defs)

lemma every_response_cors_p0:
  "\<exists>r. fst (handler_p0 w req) = Inr r \<and> (''Access-Control-Allow-Origin'', ''*'') \<in> set (headers r)"
  by (auto simp add: route_defs chat_reply_p0_def corsHeaders_def Let_def split: sum.splits)

end
